theory Spec2Isabelle
  imports Main "HOL-Library.Word" "HOL-Library.Multiset"
    "HOL-Library.List_Lexorder" "HOL-Library.Option_ord"
begin

section \<open>The comment server \<open>server (1).js\<close>\<close>

text \<open>
  A shallow embedding of the Express handlers of \<open>server (1).js\<close>: the \<open>sanitize\<close>
  helper, the list handler \<open>GET /api/comments\<close>, the create handler
  \<open>POST /api/comments\<close> and the error middleware, over an explicit model of the
  \<open>comments\<close> table.
\<close>

subsection \<open>JavaScript strings\<close>

text \<open>
  A JavaScript string is a sequence of 16-bit code units; \<open>length\<close>, \<open>slice\<close>,
  \<open>trim\<close> and a regular expression without the \<open>u\<close> flag all work on code units.
  ASCII literals of the source are written with \<open>ascii\<close>.
\<close>

type_synonym jsstring = "16 word list"

definition ascii :: "string \<Rightarrow> jsstring" where
  "ascii s = map of_char s"

text \<open>
  The white space and line terminator code units of ECMAScript: what
  \<open>String.prototype.trim\<close> strips, what \<open>parseInt\<close> skips and what \<open>\\s\<close> matches
  (so \<open>\\S\<close> is its complement).
\<close>

definition is_space :: "16 word \<Rightarrow> bool" where
  "is_space c =
     (c = 0x09 \<or> c = 0x0A \<or> c = 0x0B \<or> c = 0x0C \<or> c = 0x0D \<or> c = 0x20 \<or> c = 0xA0
      \<or> c = 0x1680 \<or> (0x2000 \<le> c \<and> c \<le> 0x200A) \<or> c = 0x2028 \<or> c = 0x2029
      \<or> c = 0x202F \<or> c = 0x205F \<or> c = 0x3000 \<or> c = 0xFEFF)"

definition trim_start :: "jsstring \<Rightarrow> jsstring" where
  "trim_start s = dropWhile is_space s"

definition trim :: "jsstring \<Rightarrow> jsstring" where
  "trim s = rev (trim_start (rev (trim_start s)))"

text \<open>\<open>s.slice(0, n)\<close> for a non-negative literal \<open>n\<close>.\<close>

definition slice0 :: "nat \<Rightarrow> jsstring \<Rightarrow> jsstring" where
  "slice0 n s = take n s"

subsection \<open>\<open>sanitize\<close>\<close>

text \<open>
  \<open>s.replace(/c/g, rep)\<close> for a pattern that is one literal code unit and a replacement
  text without \<open>$\<close>: every occurrence of \<open>c\<close> becomes \<open>rep\<close>.
\<close>

definition replace_all :: "16 word \<Rightarrow> jsstring \<Rightarrow> jsstring \<Rightarrow> jsstring" where
  "replace_all c rep s = concat (map (\<lambda>x. if x = c then rep else [x]) s)"

text \<open>
  \<^verbatim>\<open>
  function sanitize(str = ''){
    return String(str)
      .replace(/&/g, '&amp;')
      .replace(/</g, '&lt;')
      .replace(/>/g, '&gt;')
      .replace(/"/g, '&quot;')
      .replace(/'/g, '&#39;');
  }
  \<close>
  The five code units are \<open>&\<close> = 0x26, \<open><\<close> = 0x3C, \<open>>\<close> = 0x3E, the double quote 0x22
  and the apostrophe 0x27.
\<close>

definition sanitize :: "jsstring \<Rightarrow> jsstring" where
  "sanitize str =
     replace_all 0x27 (ascii ''&#39;'')
       (replace_all 0x22 (ascii ''&quot;'')
         (replace_all 0x3E (ascii ''&gt;'')
           (replace_all 0x3C (ascii ''&lt;'')
             (replace_all 0x26 (ascii ''&amp;'') str))))"

subsection \<open>Values of a parsed JSON body\<close>

text \<open>
  What \<open>express.json()\<close> leaves in \<open>req.body\<close>. A JSON number is observed by the
  handlers only through its truthiness and through \<open>toString()\<close>, so \<open>VNum\<close> carries
  exactly these two: whether the number is non-zero, and its decimal text. An object is
  the list of its members in document order (\<open>JSON.parse\<close> keeps the last of equal keys).
\<close>

datatype jsval =
    VNull
  | VBool bool
  | VNum bool jsstring
  | VStr jsstring
  | VArr "jsval list"
  | VObj "(jsstring \<times> jsval) list"

text \<open>
  In its default strict mode \<open>express.json()\<close> accepts only an object or an array at
  the top level; a request without a JSON body has the empty object.
\<close>

datatype body = Object "(jsstring \<times> jsval) list" | Array "jsval list"

text \<open>
  \<open>req.body.k\<close> for one of the keys \<open>name\<close>, \<open>email\<close>, \<open>message\<close>, none of which an
  array or \<open>Object.prototype\<close> has: \<open>None\<close> is \<open>undefined\<close>.
\<close>

fun get_prop :: "body \<Rightarrow> jsstring \<Rightarrow> jsval option" where
  "get_prop (Object kvs) k = map_of (rev kvs) k"
| "get_prop (Array xs) k = None"

fun truthy :: "jsval \<Rightarrow> bool" where
  "truthy VNull = False"
| "truthy (VBool b) = b"
| "truthy (VNum nz t) = nz"
| "truthy (VStr s) = (s \<noteq> [])"
| "truthy (VArr xs) = True"
| "truthy (VObj kvs) = True"

text \<open>
  \<open>v.toString()\<close>; \<open>None\<close> is a thrown \<open>TypeError\<close>. An array joins its elements with
  commas, \<open>null\<close> elements giving the empty text. A parsed object answers
  \<open>[object Object]\<close> unless it has a member called \<open>toString\<close>, which is never
  callable.
\<close>

fun to_string :: "jsval \<Rightarrow> jsstring option"
  and join :: "jsval list \<Rightarrow> jsstring option" where
  "to_string VNull = None"
| "to_string (VBool b) = Some (if b then ascii ''true'' else ascii ''false'')"
| "to_string (VNum nz t) = Some t"
| "to_string (VStr s) = Some s"
| "to_string (VArr xs) = join xs"
| "to_string (VObj kvs) =
     (if ascii ''toString'' \<in> fst ` set kvs then None else Some (ascii ''[object Object]''))"
| "join [] = Some []"
| "join (x # xs) =
     (case (if x = VNull then Some [] else to_string x) of
        None \<Rightarrow> None
      | Some a \<Rightarrow>
          (if xs = [] then Some a
           else (case join xs of None \<Rightarrow> None | Some b \<Rightarrow> Some (a @ ascii '','' @ b))))"

text \<open>\<open>(req.body.k || '').toString()\<close>\<close>

definition field_text :: "body \<Rightarrow> jsstring \<Rightarrow> jsstring option" where
  "field_text b k =
     (case get_prop b k of
        None \<Rightarrow> Some []
      | Some v \<Rightarrow> if truthy v then to_string v else Some [])"

subsection \<open>The e-mail pattern\<close>

text \<open>
  The regular expressions of the source are anchored sequences of single-unit atoms,
  each taken once or one or more times (\<open>+\<close>). \<open>regexp_test\<close> is \<open>re.test(s)\<close> for
  such an expression written between \<open>^\<close> and \<open>$\<close>.
\<close>

datatype atom = NonSpace | Lit "16 word"

datatype item = Once atom | Plus atom

fun atom_ok :: "atom \<Rightarrow> 16 word \<Rightarrow> bool" where
  "atom_ok NonSpace c = (\<not> is_space c)"
| "atom_ok (Lit x) c = (c = x)"

fun regexp_test :: "item list \<Rightarrow> jsstring \<Rightarrow> bool" where
  "regexp_test [] s = (s = [])"
| "regexp_test (Once a # p) [] = False"
| "regexp_test (Once a # p) (c # cs) = (atom_ok a c \<and> regexp_test p cs)"
| "regexp_test (Plus a # p) [] = False"
| "regexp_test (Plus a # p) (c # cs) =
     (atom_ok a c \<and> (regexp_test p cs \<or> regexp_test (Plus a # p) cs))"

text \<open>\<^verbatim>\<open>/^\S+@\S+\.\S+$/\<close>, with \<open>@\<close> = 0x40 and \<open>.\<close> = 0x2E.\<close>

definition email_re :: "item list" where
  "email_re = [Plus NonSpace, Once (Lit 0x40), Plus NonSpace, Once (Lit 0x2E), Plus NonSpace]"

subsection \<open>Query parameters and \<open>parseInt\<close>\<close>

text \<open>
  A value of \<open>req.query\<close>: a string, an array (a repeated parameter) or an object
  (a bracketed parameter); an absent parameter is \<open>None\<close>.
\<close>

datatype qval = QStr jsstring | QArr "qval list" | QObj

record query =
  q_limit :: "qval option"
  q_offset :: "qval option"

fun q_truthy :: "qval \<Rightarrow> bool" where
  "q_truthy (QStr s) = (s \<noteq> [])"
| "q_truthy (QArr xs) = True"
| "q_truthy QObj = True"

text \<open>The conversion to a string that \<open>parseInt\<close> applies to its argument.\<close>

fun q_string :: "qval \<Rightarrow> jsstring"
  and q_join :: "qval list \<Rightarrow> jsstring" where
  "q_string (QStr s) = s"
| "q_string (QArr xs) = q_join xs"
| "q_string QObj = ascii ''[object Object]''"
| "q_join [] = []"
| "q_join (x # xs) = (if xs = [] then q_string x else q_string x @ ascii '','' @ q_join xs)"

text \<open>\<open>req.query.k || dflt\<close>, as the text \<open>parseInt\<close> reads.\<close>

definition query_or :: "qval option \<Rightarrow> jsstring \<Rightarrow> jsstring" where
  "query_or v dflt =
     (case v of None \<Rightarrow> dflt | Some x \<Rightarrow> if q_truthy x then q_string x else dflt)"

definition is_digit :: "16 word \<Rightarrow> bool" where
  "is_digit c = (0x30 \<le> c \<and> c \<le> 0x39)"

definition digits_value :: "jsstring \<Rightarrow> int" where
  "digits_value z = foldl (\<lambda>a c. 10 * a + (uint c - 48)) 0 z"

text \<open>
  \<open>parseInt(input, 10)\<close>: leading white space is skipped, one sign is read, then the
  longest run of decimal digits; \<open>None\<close> is \<open>NaN\<close>. Numbers are mathematical integers
  here; JavaScript holds them as doubles, which are these integers up to \<open>2^53\<close>.
\<close>

definition parseInt10 :: "jsstring \<Rightarrow> int option" where
  "parseInt10 input =
     (let s = trim_start input;
          sign = (if s \<noteq> [] \<and> hd s = 0x2D then - 1 else 1);
          s' = (if s \<noteq> [] \<and> (hd s = 0x2B \<or> hd s = 0x2D) then tl s else s);
          z = takeWhile is_digit s'
      in if z = [] then None else Some (sign * digits_value z))"

text \<open>\<open>n || dflt\<close> for a number: \<open>NaN\<close> and zero are falsy.\<close>

definition num_or :: "int option \<Rightarrow> int \<Rightarrow> int" where
  "num_or n dflt = (case n of None \<Rightarrow> dflt | Some k \<Rightarrow> if k = 0 then dflt else k)"

subsection \<open>The \<open>comments\<close> table\<close>

text \<open>
  \<^verbatim>\<open>
  CREATE TABLE IF NOT EXISTS comments (
    id INTEGER PRIMARY KEY AUTOINCREMENT,
    name TEXT,
    email TEXT,
    message TEXT NOT NULL,
    date TEXT NOT NULL,
    created_at TIMESTAMP DEFAULT CURRENT_TIMESTAMP
  )
  \<close>
  A column without \<open>NOT NULL\<close> is an option, \<open>None\<close> being \<open>NULL\<close>.
\<close>

record comment =
  c_id :: int
  c_name :: "jsstring option"
  c_email :: "jsstring option"
  c_message :: jsstring
  c_date :: jsstring
  c_created_at :: "jsstring option"

text \<open>The statements the handlers issue, with their bound parameters.\<close>

datatype statement =
    Select_comments int int
  | Insert_comment jsstring jsstring jsstring jsstring

text \<open>
  The database: the rows of the table, the largest \<open>id\<close> that \<open>AUTOINCREMENT\<close> has
  handed out, and the statements issued so far.
\<close>

record db =
  rows :: "comment list"
  seq :: int
  issued :: "statement list"

text \<open>
  What a handler reads from outside: whether the storage call of this request succeeds,
  \<open>new Date().toISOString()\<close>, and SQLite's \<open>CURRENT_TIMESTAMP\<close>.
\<close>

record env =
  io_ok :: bool
  now_iso :: jsstring
  current_timestamp :: jsstring

text \<open>
  \<open>ORDER BY created_at DESC, id DESC\<close>: \<open>newer_eq a b\<close> holds when \<open>a\<close> may stand
  before \<open>b\<close>. Texts compare unit by unit, \<open>NULL\<close> is below every text. (SQLite
  compares the bytes of the stored text, which is the same order on the ASCII timestamps
  that \<open>CURRENT_TIMESTAMP\<close> writes.)
\<close>

definition newer_eq :: "comment \<Rightarrow> comment \<Rightarrow> bool" where
  "newer_eq a b =
     (c_created_at b < c_created_at a
      \<or> (c_created_at a = c_created_at b \<and> c_id b \<le> c_id a))"

fun place :: "comment \<Rightarrow> comment list \<Rightarrow> comment list" where
  "place a [] = [a]"
| "place a (b # bs) = (if newer_eq a b then a # b # bs else b # place a bs)"

fun order_by :: "comment list \<Rightarrow> comment list" where
  "order_by [] = []"
| "order_by (a # as) = place a (order_by as)"

text \<open>\<open>LIMIT ? OFFSET ?\<close>: a negative limit is no limit, a negative offset is none.\<close>

definition limit_offset :: "int \<Rightarrow> int \<Rightarrow> 'a list \<Rightarrow> 'a list" where
  "limit_offset l off xs =
     (let ys = drop (nat off) xs in if l < 0 then ys else take (nat l) ys)"

text \<open>
  A row as the list handler's callback receives it:
  \<^verbatim>\<open>SELECT id, name, /* email, */ message, date, created_at\<close>
\<close>

record r =
  r_id :: int
  r_name :: "jsstring option"
  r_message :: jsstring
  r_date :: jsstring
  r_created_at :: "jsstring option"

definition select_columns :: "comment \<Rightarrow> r" where
  "select_columns c =
     \<lparr>r_id = c_id c, r_name = c_name c, r_message = c_message c, r_date = c_date c,
      r_created_at = c_created_at c\<rparr>"

text \<open>
  \<open>db.all(SELECT ..., [limit, offset], callback)\<close>: the callback gets an error
  (\<open>None\<close>) or the rows.
\<close>

definition db_all :: "env \<Rightarrow> db \<Rightarrow> int \<Rightarrow> int \<Rightarrow> r list option \<times> db" where
  "db_all e d l off =
     (if io_ok e
      then Some (map select_columns (limit_offset l off (order_by (rows d))))
      else None,
      d\<lparr>issued := issued d @ [Select_comments l off]\<rparr>)"

text \<open>
  \<open>db.run(INSERT INTO comments (name, email, message, date) VALUES (?, ?, ?, ?), ...)\<close>:
  the callback gets an error (\<open>None\<close>) or \<open>this.lastID\<close>.
\<close>

definition db_run :: "env \<Rightarrow> db \<Rightarrow> jsstring \<Rightarrow> jsstring \<Rightarrow> jsstring \<Rightarrow> jsstring \<Rightarrow> int option \<times> db" where
  "db_run e d name email message date =
     (let d' = d\<lparr>issued := issued d @ [Insert_comment name email message date]\<rparr>
      in if io_ok e
         then (let lastID = foldr max (map c_id (rows d)) (seq d) + 1
               in (Some lastID,
                   d'\<lparr>rows := rows d @
                        [\<lparr>c_id = lastID, c_name = Some name, c_email = Some email,
                          c_message = message, c_date = date,
                          c_created_at = Some (current_timestamp e)\<rparr>],
                      seq := lastID\<rparr>))
         else (None, d'))"

subsection \<open>Responses\<close>

text \<open>What \<open>res.status(n).json(v)\<close> sends; an object lists its members in order.\<close>

datatype json =
    JNull
  | JBool bool
  | JNum int
  | JStr jsstring
  | JArr "json list"
  | JObj "(string \<times> json) list"

record response =
  status :: nat
  payload :: json

text \<open>
  The placeholder \<open>'An\u00F3nimo'\<close>, and \<open>v || 'An\u00F3nimo'\<close> for a text or \<open>null\<close>.
\<close>

definition anonimo :: jsstring where
  "anonimo = ascii ''An'' @ [0xF3] @ ascii ''nimo''"

definition or_anonimo :: "jsstring option \<Rightarrow> jsstring" where
  "or_anonimo v = (case v of None \<Rightarrow> anonimo | Some s \<Rightarrow> if s = [] then anonimo else s)"

subsection \<open>\<open>GET /api/comments\<close>\<close>

text \<open>
  \<^verbatim>\<open>
  const safe = rows.map(r => ({
    id: r.id,
    name: r.name || 'An\u00F3nimo',
    message: sanitize(r.message),
    date: r.date,
    created_at: r.created_at
  }));
  \<close>
\<close>

definition safe :: "r \<Rightarrow> json" where
  "safe x =
     JObj [(''id'', JNum (r_id x)),
           (''name'', JStr (or_anonimo (r_name x))),
           (''message'', JStr (sanitize (r_message x))),
           (''date'', JStr (r_date x)),
           (''created_at'', (case r_created_at x of None \<Rightarrow> JNull | Some t \<Rightarrow> JStr t))]"

text \<open>
  \<^verbatim>\<open>
  const limit = Math.max(1, Math.min(parseInt(req.query.limit || '20', 10) || 20, 100));
  const offset = Math.max(0, parseInt(req.query.offset || '0', 10) || 0);
  \<close>
\<close>

definition limit_of :: "query \<Rightarrow> int" where
  "limit_of q = max 1 (min (num_or (parseInt10 (query_or (q_limit q) (ascii ''20''))) 20) 100)"

definition offset_of :: "query \<Rightarrow> int" where
  "offset_of q = max 0 (num_or (parseInt10 (query_or (q_offset q) (ascii ''0''))) 0)"

definition get_comments :: "env \<Rightarrow> db \<Rightarrow> query \<Rightarrow> response \<times> db" where
  "get_comments e d q =
     (let limit = limit_of q; offset = offset_of q
      in case db_all e d limit offset of
           (None, d') \<Rightarrow>
             (\<lparr>status = 500,
               payload = JObj [(''ok'', JBool False), (''error'', JStr (ascii ''DB_ERROR''))]\<rparr>, d')
         | (Some rs, d') \<Rightarrow>
             (\<lparr>status = 200,
               payload = JObj [(''ok'', JBool True), (''items'', JArr (map safe rs)),
                               (''limit'', JNum limit), (''offset'', JNum offset)]\<rparr>, d'))"

subsection \<open>The error middleware\<close>

text \<open>
  \<^verbatim>\<open>
  app.use((err, req, res, next) => {
    if (err instanceof SyntaxError && 'body' in err) {
      return res.status(400).json({ ok: false, error: 'JSON_INVALID_BODY' });
    }
    res.status(500).json({ ok: false, error: 'INTERNAL_ERROR' });
  });
  \<close>
  \<open>Body_syntax_error\<close> is the \<open>SyntaxError\<close> with a \<open>body\<close> that \<open>express.json()\<close>
  raises on malformed JSON; \<open>Other_error\<close> is anything else, such as the \<open>TypeError\<close> of
  a failed \<open>toString()\<close> or a body over the size limit.
\<close>

datatype thrown = Body_syntax_error | Other_error

definition error_middleware :: "thrown \<Rightarrow> response" where
  "error_middleware err =
     (if err = Body_syntax_error
      then \<lparr>status = 400,
            payload = JObj [(''ok'', JBool False), (''error'', JStr (ascii ''JSON_INVALID_BODY''))]\<rparr>
      else \<lparr>status = 500,
            payload = JObj [(''ok'', JBool False), (''error'', JStr (ascii ''INTERNAL_ERROR''))]\<rparr>)"

subsection \<open>\<open>POST /api/comments\<close>\<close>

definition validation_error :: "string \<Rightarrow> string \<Rightarrow> response" where
  "validation_error code field =
     \<lparr>status = 400,
      payload = JObj [(''ok'', JBool False), (''error'', JStr (ascii code)),
                      (''field'', JStr (ascii field))]\<rparr>"

text \<open>
  The handler proper, run once \<open>commentsLimiter\<close> has let the request through.
  \<^verbatim>\<open>
  const name = (req.body.name || '').toString().trim().slice(0, 100);
  const email = (req.body.email || '').toString().trim().slice(0, 150);
  const message = (req.body.message || '').toString().trim();
  if (!message || message.length < 5) { ... VALIDATION_MIN_LENGTH ... }
  if (message.length > 2000) { ... VALIDATION_MAX_LENGTH ... }
  if (email && !/^\S+@\S+\.\S+$/.test(email)) { ... VALIDATION_EMAIL ... }
  const date = new Date().toISOString();
  db.run(sql, [name, email, message, date], function(err){ ... });
  \<close>
  An exception thrown while the three fields are read goes to the error middleware.
\<close>

definition post_comments :: "env \<Rightarrow> db \<Rightarrow> body \<Rightarrow> response \<times> db" where
  "post_comments e d b =
     (case field_text b (ascii ''name'') of
        None \<Rightarrow> (error_middleware Other_error, d)
      | Some n \<Rightarrow>
     (case field_text b (ascii ''email'') of
        None \<Rightarrow> (error_middleware Other_error, d)
      | Some m \<Rightarrow>
     (case field_text b (ascii ''message'') of
        None \<Rightarrow> (error_middleware Other_error, d)
      | Some t \<Rightarrow>
     (let name = slice0 100 (trim n);
          email = slice0 150 (trim m);
          message = trim t
      in if message = [] \<or> length message < 5
         then (validation_error ''VALIDATION_MIN_LENGTH'' ''message'', d)
         else if length message > 2000
         then (validation_error ''VALIDATION_MAX_LENGTH'' ''message'', d)
         else if email \<noteq> [] \<and> \<not> regexp_test email_re email
         then (validation_error ''VALIDATION_EMAIL'' ''email'', d)
         else (let date = now_iso e
               in case db_run e d name email message date of
                    (None, d') \<Rightarrow>
                      (\<lparr>status = 500,
                        payload = JObj [(''ok'', JBool False),
                                        (''error'', JStr (ascii ''DB_ERROR''))]\<rparr>, d')
                  | (Some id', d') \<Rightarrow>
                      (\<lparr>status = 201,
                        payload = JObj [(''ok'', JBool True),
                                        (''item'', JObj [(''id'', JNum id'),
                                                         (''name'', JStr (or_anonimo (Some name))),
                                                         (''message'', JStr (sanitize message)),
                                                         (''date'', JStr date)])]\<rparr>, d'))))))"

text \<open>
  The route as a request meets it: \<open>express.json()\<close> has parsed the body or has raised
  an error, which skips the handler.
\<close>

datatype parsed = Parsed body | Raised thrown

definition post_route :: "env \<Rightarrow> db \<Rightarrow> parsed \<Rightarrow> response \<times> db" where
  "post_route e d p =
     (case p of
        Parsed b \<Rightarrow> post_comments e d b
      | Raised err \<Rightarrow> (error_middleware err, d))"

section \<open>Stating the properties\<close>

subsection \<open>Reading a response\<close>

fun member :: "json \<Rightarrow> string \<Rightarrow> json option" where
  "member (JObj kvs) k = map_of kvs k"
| "member v k = None"

text \<open>Every member name of a JSON value, at any depth.\<close>

fun json_keys :: "json \<Rightarrow> string list" where
  "json_keys (JObj kvs) = concat (map (\<lambda>kv. fst kv # json_keys (snd kv)) kvs)"
| "json_keys (JArr vs) = concat (map json_keys vs)"
| "json_keys v = []"

text \<open>
  The comment views of a payload: the \<open>item\<close> of a create response, the \<open>items\<close> of a
  list response.
\<close>

definition views :: "json \<Rightarrow> json list" where
  "views p =
     (case member p ''item'' of
        Some v \<Rightarrow> [v]
      | None \<Rightarrow> (case member p ''items'' of Some (JArr vs) \<Rightarrow> vs | _ \<Rightarrow> []))"

subsection \<open>The rules in the specification's words\<close>

text \<open>Escaping as one pass: each code unit is replaced by its entity, or kept.\<close>

definition escape_unit :: "16 word \<Rightarrow> jsstring" where
  "escape_unit c =
     (if c = 0x26 then ascii ''&amp;''
      else if c = 0x3C then ascii ''&lt;''
      else if c = 0x3E then ascii ''&gt;''
      else if c = 0x22 then ascii ''&quot;''
      else if c = 0x27 then ascii ''&#39;''
      else [c])"




subsection \<open>Sample surroundings\<close>

definition sample_env :: env where
  "sample_env =
     \<lparr>io_ok = True, now_iso = ascii ''2024-05-01T10:00:00.000Z'',
      current_timestamp = ascii ''2024-05-01 10:00:00''\<rparr>"

definition empty_db :: db where
  "empty_db = \<lparr>rows = [], seq = 0, issued = []\<rparr>"

definition sample_body :: body where
  "sample_body =
     Object [(ascii ''name'', VStr (ascii '' <b>Ana</b>'')),
             (ascii ''email'', VStr (ascii ''ana@example.com '')),
             (ascii ''message'', VStr (ascii '' Tom & Jerry ''))]"

text \<open>A table of four rows, two of them inserted within the same second.\<close>

definition sample_rows :: "comment list" where
  "sample_rows =
     [\<lparr>c_id = 1, c_name = Some (ascii ''Ana''), c_email = Some [], c_message = ascii ''first'',
       c_date = ascii ''2024-05-01T10:00:00.000Z'', c_created_at = Some (ascii ''2024-05-01 10:00:00'')\<rparr>,
      \<lparr>c_id = 2, c_name = Some [], c_email = Some [], c_message = ascii ''second'',
       c_date = ascii ''2024-05-01T10:00:07.000Z'', c_created_at = Some (ascii ''2024-05-01 10:00:07'')\<rparr>,
      \<lparr>c_id = 3, c_name = None, c_email = None, c_message = ascii ''third <3'',
       c_date = ascii ''2024-05-01T10:00:07.500Z'', c_created_at = Some (ascii ''2024-05-01 10:00:07'')\<rparr>,
      \<lparr>c_id = 4, c_name = Some (ascii ''R&D''), c_email = None, c_message = ascii ''fourth'',
       c_date = ascii ''2024-04-30T09:00:00.000Z'', c_created_at = Some (ascii ''2024-04-30 09:00:00'')\<rparr>]"

section \<open>Proofs\<close>

subsection \<open>Escaping\<close>

lemma replace_all_Nil: "replace_all c rep [] = []"
  by (simp add: replace_all_def)

lemma replace_all_append:
  "replace_all c rep (xs @ ys) = replace_all c rep xs @ replace_all c rep ys"
  by (simp add: replace_all_def)

lemma replace_all_Cons:
  "replace_all c rep (x # xs) = (if x = c then rep else [x]) @ replace_all c rep xs"
  by (simp add: replace_all_def)

lemma sanitize_Nil: "sanitize [] = []"
  by (simp add: sanitize_def replace_all_Nil)

lemma sanitize_append: "sanitize (xs @ ys) = sanitize xs @ sanitize ys"
  by (simp add: sanitize_def replace_all_append)

text \<open>
  On one code unit the five replacements in the source's order give the entity; here
  the order matters, as \<open>&\<close> is replaced before any entity has been written.
\<close>

lemma sanitize_single: "sanitize [c] = escape_unit c"
  by (simp add: sanitize_def escape_unit_def replace_all_Cons replace_all_Nil
      replace_all_append ascii_def)

lemma sanitize_concat: "sanitize s = concat (map escape_unit s)"
proof (induction s)
  case Nil
  show ?case by (simp add: sanitize_Nil)
next
  case (Cons c s)
  have "sanitize (c # s) = sanitize ([c] @ s)" by simp
  also have "\<dots> = escape_unit c @ sanitize s"
    by (simp only: sanitize_append sanitize_single)
  finally show ?case using Cons by simp
qed

lemma escape_unit_clean:
  "x \<in> set (escape_unit c) \<Longrightarrow> x \<noteq> 0x3C \<and> x \<noteq> 0x3E \<and> x \<noteq> 0x22 \<and> x \<noteq> 0x27"
  by (auto simp: escape_unit_def ascii_def split: if_splits)

lemma escape_unit_amp:
  "0x26 \<in> set (escape_unit c) \<longleftrightarrow> c \<in> {0x26, 0x3C, 0x3E, 0x22, 0x27}"
  by (auto simp: escape_unit_def ascii_def split: if_splits)

lemma sanitize_clean: "set (sanitize s) \<inter> {0x3C, 0x3E, 0x22, 0x27} = {}"
  unfolding sanitize_concat using escape_unit_clean by fastforce

lemma sanitize_amp:
  "0x26 \<in> set (sanitize s) \<longleftrightarrow> set s \<inter> {0x26, 0x3C, 0x3E, 0x22, 0x27} \<noteq> {}"
  unfolding sanitize_concat using escape_unit_amp by fastforce

subsection \<open>The two handlers, case by case\<close>

lemma get_comments_ok:
  "io_ok e \<Longrightarrow> get_comments e d q =
     (\<lparr>status = 200,
       payload = JObj [(''ok'', JBool True),
          (''items'', JArr (map safe (map select_columns
             (limit_offset (limit_of q) (offset_of q) (order_by (rows d)))))),
          (''limit'', JNum (limit_of q)), (''offset'', JNum (offset_of q))]\<rparr>,
      d\<lparr>issued := issued d @ [Select_comments (limit_of q) (offset_of q)]\<rparr>)"
  by (simp add: get_comments_def db_all_def Let_def)

lemma get_comments_fail:
  "\<not> io_ok e \<Longrightarrow> get_comments e d q =
     (\<lparr>status = 500,
       payload = JObj [(''ok'', JBool False), (''error'', JStr (ascii ''DB_ERROR''))]\<rparr>,
      d\<lparr>issued := issued d @ [Select_comments (limit_of q) (offset_of q)]\<rparr>)"
  by (simp add: get_comments_def db_all_def Let_def)

lemma views_get_comments:
  "io_ok e \<Longrightarrow> views (payload (fst (get_comments e d q))) =
     map safe (map select_columns (limit_offset (limit_of q) (offset_of q) (order_by (rows d))))"
  by (simp add: get_comments_ok views_def)

lemma post_comments_201:
  assumes "status (fst (post_comments e d b)) = 201"
  shows "\<exists>n m t i. field_text b (ascii ''name'') = Some n
      \<and> field_text b (ascii ''email'') = Some m
      \<and> field_text b (ascii ''message'') = Some t
      \<and> 5 \<le> length (trim t) \<and> length (trim t) \<le> 2000
      \<and> (slice0 150 (trim m) = [] \<or> regexp_test email_re (slice0 150 (trim m)))
      \<and> io_ok e
      \<and> payload (fst (post_comments e d b)) =
          JObj [(''ok'', JBool True),
                (''item'', JObj [(''id'', JNum i),
                                 (''name'', JStr (or_anonimo (Some (slice0 100 (trim n))))),
                                 (''message'', JStr (sanitize (trim t))),
                                 (''date'', JStr (now_iso e))])]"
  using assms
  by (auto simp: post_comments_def Let_def error_middleware_def validation_error_def
      db_run_def split: option.splits if_splits)

text \<open>The sample request, run against the empty table.\<close>

lemma post_sample:
  "post_comments sample_env empty_db sample_body =
     (\<lparr>status = 201,
       payload = JObj [(''ok'', JBool True),
                       (''item'', JObj [(''id'', JNum 1),
                                        (''name'', JStr (ascii ''<b>Ana</b>'')),
                                        (''message'', JStr (ascii ''Tom &amp; Jerry'')),
                                        (''date'', JStr (ascii ''2024-05-01T10:00:00.000Z''))])]\<rparr>,
      \<lparr>rows = [\<lparr>c_id = 1, c_name = Some (ascii ''<b>Ana</b>''),
                 c_email = Some (ascii ''ana@example.com''),
                 c_message = ascii ''Tom & Jerry'',
                 c_date = ascii ''2024-05-01T10:00:00.000Z'',
                 c_created_at = Some (ascii ''2024-05-01 10:00:00'')\<rparr>],
       seq = 1,
       issued = [Insert_comment (ascii ''<b>Ana</b>'') (ascii ''ana@example.com'')
                   (ascii ''Tom & Jerry'') (ascii ''2024-05-01T10:00:00.000Z'')]\<rparr>)"
  by code_simp

subsection \<open>No e-mail address in a response\<close>

lemma json_keys_safe:
  "json_keys (safe x) = [''id'', ''name'', ''message'', ''date'', ''created_at'']"
  by (simp add: safe_def split: option.split)

lemma json_keys_get_comments:
  "''email'' \<notin> set (json_keys (payload (fst (get_comments e d q))))"
proof (cases "io_ok e")
  case True
  then show ?thesis by (simp add: get_comments_ok json_keys_safe)
next
  case False
  then show ?thesis by (simp add: get_comments_fail)
qed

lemma json_keys_error_middleware:
  "json_keys (payload (error_middleware err)) = [''ok'', ''error'']"
  by (simp add: error_middleware_def)

lemma json_keys_validation_error:
  "json_keys (payload (validation_error code field)) = [''ok'', ''error'', ''field'']"
  by (simp add: validation_error_def)

lemma json_keys_post_comments:
  "''email'' \<notin> set (json_keys (payload (fst (post_comments e d b))))"
  by (simp add: post_comments_def Let_def db_run_def json_keys_error_middleware
      json_keys_validation_error split: option.split)

text \<open>
  C1. No response of the list route or of the create route, whether it reports success,
  a validation error, a malformed body, a storage error or an internal error, has a
  member called \<open>email\<close> at any depth, whatever the table holds and whatever address the
  request supplied.
\<close>

theorem no_email_member:
  "''email'' \<notin> set (json_keys (payload (fst (get_comments e d q))))
   \<and> ''email'' \<notin> set (json_keys (payload (fst (post_route e d p))))"
  by (cases p)
    (simp_all add: json_keys_get_comments json_keys_post_comments post_route_def
      json_keys_error_middleware)

text \<open>
  The sample request supplies an address, which is stored; neither its own response nor
  the listing that follows shows it.
\<close>

theorem no_email_member_witness:
  "c_email (last (rows (snd (post_route sample_env empty_db (Parsed sample_body)))))
     = Some (ascii ''ana@example.com'')
   \<and> ''email'' \<notin> set (json_keys (payload (fst (get_comments sample_env
         (snd (post_route sample_env empty_db (Parsed sample_body)))
         \<lparr>q_limit = None, q_offset = None\<rparr>))))
   \<and> ''email'' \<notin> set (json_keys (payload (fst
         (post_route sample_env (snd (post_route sample_env empty_db (Parsed sample_body)))
            (Parsed sample_body)))))"
  using no_email_member [of sample_env "snd (post_route sample_env empty_db (Parsed sample_body))"
      "\<lparr>q_limit = None, q_offset = None\<rparr>" "Parsed sample_body"]
  by (simp add: post_route_def post_sample)

subsection \<open>Escaping the message\<close>

lemma sample_messages:
  "map r_message (map select_columns (limit_offset 20 0 (order_by sample_rows)))
     = [ascii ''third <3'', ascii ''second'', ascii ''first'', ascii ''fourth'']"
  "sanitize (ascii ''third <3'') = ascii ''third &lt;3''"
  "limit_of \<lparr>q_limit = None, q_offset = None\<rparr> = 20"
  "offset_of \<lparr>q_limit = None, q_offset = None\<rparr> = 0"
  "field_text sample_body (ascii ''message'') = Some (ascii '' Tom & Jerry '')"
  "sanitize (trim (ascii '' Tom & Jerry '')) = ascii ''Tom &amp; Jerry''"
  "sanitize (ascii ''Tom &amp; Jerry'') = ascii ''Tom &amp;amp; Jerry''"
  by code_simp+

text \<open>
  C2, as the claim states it, fails: an escaped message does contain the character
  \<open>&\<close>. The sample request's message \<open>Tom & Jerry\<close> comes back as
  \<open>Tom &amp; Jerry\<close>, whose fifth code unit is \<open>&\<close> (0x26).
\<close>

theorem message_keeps_ampersand:
  "views (payload (fst (post_comments sample_env empty_db sample_body)))
     = [JObj [(''id'', JNum 1), (''name'', JStr (ascii ''<b>Ana</b>'')),
              (''message'', JStr (ascii ''Tom &amp; Jerry'')),
              (''date'', JStr (ascii ''2024-05-01T10:00:00.000Z''))]]
   \<and> ascii ''Tom &amp; Jerry'' ! 4 = 0x26
   \<and> 0x26 \<in> set (ascii ''Tom &amp; Jerry'')"
  by (simp add: post_sample views_def) (simp add: ascii_def)

text \<open>
  C2 (amended). \<open>sanitize\<close>, the five replacements in the source's order with \<open>&\<close>
  first, replaces every code unit exactly once by its entity (\<open>escape_unit\<close>). Its result
  never contains \<open><\<close>, \<open>>\<close>, a double quote or an apostrophe, and it contains \<open>&\<close>
  exactly when the input contains one of the five characters. The \<open>message\<close> of every
  view of a list response is \<open>sanitize\<close> applied once to the stored message, and the
  \<open>message\<close> of a create response is \<open>sanitize\<close> applied once to the trimmed message.
\<close>

theorem sanitize_message_once:
  "sanitize s = concat (map escape_unit s)
   \<and> set (sanitize s) \<inter> {0x3C, 0x3E, 0x22, 0x27} = {}
   \<and> (0x26 \<in> set (sanitize s) \<longleftrightarrow> set s \<inter> {0x26, 0x3C, 0x3E, 0x22, 0x27} \<noteq> {})
   \<and> member (safe x) ''message'' = Some (JStr (sanitize (r_message x)))
   \<and> (io_ok e \<longrightarrow> views (payload (fst (get_comments e d q))) =
        map safe (map select_columns
          (limit_offset (limit_of q) (offset_of q) (order_by (rows d)))))
   \<and> (status (fst (post_comments e d b)) = 201 \<longrightarrow>
        (\<exists>t v. field_text b (ascii ''message'') = Some t
           \<and> views (payload (fst (post_comments e d b))) = [v]
           \<and> member v ''message'' = Some (JStr (sanitize (trim t)))))"
proof (intro conjI impI)
  assume "status (fst (post_comments e d b)) = 201"
  from post_comments_201 [OF this]
  show "\<exists>t v. field_text b (ascii ''message'') = Some t
           \<and> views (payload (fst (post_comments e d b))) = [v]
           \<and> member v ''message'' = Some (JStr (sanitize (trim t)))"
    by (auto simp: views_def)
qed (simp_all add: sanitize_concat [symmetric] sanitize_clean sanitize_amp safe_def
    views_get_comments)

text \<open>
  The sample request's message is escaped once (a second pass would turn \<open>&amp;\<close> into
  \<open>&amp;amp;\<close>), and so is the message \<open>third <3\<close> of the sample table.
\<close>

theorem sanitize_message_once_witness:
  "io_ok sample_env
   \<and> status (fst (post_comments sample_env empty_db sample_body)) = 201
   \<and> (\<exists>v. views (payload (fst (post_comments sample_env empty_db sample_body))) = [v]
         \<and> member v ''message'' = Some (JStr (ascii ''Tom &amp; Jerry'')))
   \<and> sanitize (ascii ''Tom &amp; Jerry'') = ascii ''Tom &amp;amp; Jerry''
   \<and> views (payload (fst (get_comments sample_env \<lparr>rows = sample_rows, seq = 4, issued = []\<rparr>
        \<lparr>q_limit = None, q_offset = None\<rparr>)))
       = map safe (map select_columns (limit_offset 20 0 (order_by sample_rows)))
   \<and> member (safe (select_columns (sample_rows ! 2))) ''message''
       = Some (JStr (ascii ''third &lt;3''))"
proof -
  have ok: "io_ok sample_env"
    by (simp add: sample_env_def)
  have created: "status (fst (post_comments sample_env empty_db sample_body)) = 201"
    by (simp add: post_sample)
  have row: "r_message (select_columns (sample_rows ! 2)) = ascii ''third <3''"
    by code_simp
  note create = sanitize_message_once [of "ascii ''Tom &amp; Jerry''" undefined
      sample_env empty_db undefined sample_body]
  note list = sanitize_message_once [of "[]" "select_columns (sample_rows ! 2)"
      sample_env "\<lparr>rows = sample_rows, seq = 4, issued = []\<rparr>"
      "\<lparr>q_limit = None, q_offset = None\<rparr>" undefined]
  from create created
  have "\<exists>t v. field_text sample_body (ascii ''message'') = Some t
         \<and> views (payload (fst (post_comments sample_env empty_db sample_body))) = [v]
         \<and> member v ''message'' = Some (JStr (sanitize (trim t)))"
    by blast
  then have 1: "\<exists>v. views (payload (fst (post_comments sample_env empty_db sample_body))) = [v]
         \<and> member v ''message'' = Some (JStr (ascii ''Tom &amp; Jerry''))"
    by (auto simp: sample_messages(5,6))
  from list ok
  have 2: "views (payload (fst (get_comments sample_env \<lparr>rows = sample_rows, seq = 4, issued = []\<rparr>
        \<lparr>q_limit = None, q_offset = None\<rparr>)))
       = map safe (map select_columns (limit_offset 20 0 (order_by sample_rows)))"
    by (simp add: sample_messages(3,4))
  from list
  have 3: "member (safe (select_columns (sample_rows ! 2))) ''message''
       = Some (JStr (ascii ''third &lt;3''))"
    by (simp add: row sample_messages(2))
  from ok created 1 2 3 sample_messages(7) show ?thesis
    by blast
qed

subsection \<open>Trimming\<close>







subsection \<open>The create handler, branch by branch\<close>






lemma post_comments_valid:
  "field_text b (ascii ''name'') = Some n \<Longrightarrow> field_text b (ascii ''email'') = Some m
   \<Longrightarrow> field_text b (ascii ''message'') = Some t
   \<Longrightarrow> 5 \<le> length (trim t) \<Longrightarrow> length (trim t) \<le> 2000
   \<Longrightarrow> slice0 150 (trim m) = [] \<or> regexp_test email_re (slice0 150 (trim m))
   \<Longrightarrow> post_comments e d b =
     (case db_run e d (slice0 100 (trim n)) (slice0 150 (trim m)) (trim t) (now_iso e) of
        (None, d') \<Rightarrow>
          (\<lparr>status = 500,
            payload = JObj [(''ok'', JBool False), (''error'', JStr (ascii ''DB_ERROR''))]\<rparr>, d')
      | (Some i, d') \<Rightarrow>
          (\<lparr>status = 201,
            payload = JObj [(''ok'', JBool True),
              (''item'', JObj [(''id'', JNum i),
                               (''name'', JStr (or_anonimo (Some (slice0 100 (trim n))))),
                               (''message'', JStr (sanitize (trim t))),
                               (''date'', JStr (now_iso e))])]\<rparr>, d'))"
  by (auto simp: post_comments_def Let_def)


lemma post_comments_valid_created:
  assumes "field_text b (ascii ''name'') = Some n" "field_text b (ascii ''email'') = Some m"
    "field_text b (ascii ''message'') = Some t"
    "5 \<le> length (trim t)" "length (trim t) \<le> 2000"
    "slice0 150 (trim m) = [] \<or> regexp_test email_re (slice0 150 (trim m))"
    "io_ok e"
  shows "\<exists>i. post_comments e d b =
      (\<lparr>status = 201,
        payload = JObj [(''ok'', JBool True),
          (''item'', JObj [(''id'', JNum i),
                           (''name'', JStr (or_anonimo (Some (slice0 100 (trim n))))),
                           (''message'', JStr (sanitize (trim t))),
                           (''date'', JStr (now_iso e))])]\<rparr>,
       \<lparr>rows = rows d @ [\<lparr>c_id = i, c_name = Some (slice0 100 (trim n)),
                           c_email = Some (slice0 150 (trim m)), c_message = trim t,
                           c_date = now_iso e, c_created_at = Some (current_timestamp e)\<rparr>],
        seq = i,
        issued = issued d @ [Insert_comment (slice0 100 (trim n)) (slice0 150 (trim m)) (trim t)
                               (now_iso e)]\<rparr>)"
  unfolding post_comments_valid [OF assms(1-6)] using assms(7)
  by (simp add: db_run_def Let_def)

lemma post_comments_201_row:
  assumes "status (fst (post_comments e d b)) = 201"
  shows "\<exists>n. field_text b (ascii ''name'') = Some n
      \<and> views (payload (fst (post_comments e d b))) =
          [JObj [(''id'', JNum (c_id (last (rows (snd (post_comments e d b)))))),
                 (''name'', JStr (or_anonimo (Some (slice0 100 (trim n))))),
                 (''message'', JStr (sanitize (c_message (last (rows (snd (post_comments e d b))))))),
                 (''date'', JStr (now_iso e))]]
      \<and> c_name (last (rows (snd (post_comments e d b)))) = Some (slice0 100 (trim n))"
proof -
  from post_comments_201 [OF assms] obtain n m t
    where r: "field_text b (ascii ''name'') = Some n" "field_text b (ascii ''email'') = Some m"
      "field_text b (ascii ''message'') = Some t"
      and v: "5 \<le> length (trim t)" "length (trim t) \<le> 2000"
      "slice0 150 (trim m) = [] \<or> regexp_test email_re (slice0 150 (trim m))" "io_ok e"
    by blast
  from post_comments_valid_created [OF r v, of d] obtain i where
    "post_comments e d b =
      (\<lparr>status = 201,
        payload = JObj [(''ok'', JBool True),
          (''item'', JObj [(''id'', JNum i),
                           (''name'', JStr (or_anonimo (Some (slice0 100 (trim n))))),
                           (''message'', JStr (sanitize (trim t))),
                           (''date'', JStr (now_iso e))])]\<rparr>,
       \<lparr>rows = rows d @ [\<lparr>c_id = i, c_name = Some (slice0 100 (trim n)),
                           c_email = Some (slice0 150 (trim m)), c_message = trim t,
                           c_date = now_iso e, c_created_at = Some (current_timestamp e)\<rparr>],
        seq = i,
        issued = issued d @ [Insert_comment (slice0 100 (trim n)) (slice0 150 (trim m)) (trim t)
                               (now_iso e)]\<rparr>)"
    by blast
  with r(1) show ?thesis by (simp add: views_def)
qed

lemma post_comments_400:
  "status (fst (post_comments e d b)) = 400 \<Longrightarrow> snd (post_comments e d b) = d"
  by (auto simp: post_comments_def Let_def error_middleware_def db_run_def
      split: option.splits if_splits)

lemma post_not_an_email:
  "post_comments sample_env empty_db
     (Object [(ascii ''email'', VStr (ascii ''not-an-email'')),
              (ascii ''message'', VStr (ascii ''hello''))]) =
   (\<lparr>status = 400,
     payload = JObj [(''ok'', JBool False), (''error'', JStr (ascii ''VALIDATION_EMAIL'')),
                     (''field'', JStr (ascii ''email''))]\<rparr>, empty_db)"
  by code_simp

subsection \<open>The length of the message\<close>



subsection \<open>The e-mail pattern is the shape of the specification\<close>








subsection \<open>Limit and offset\<close>

lemma limit_of_bounds: "1 \<le> limit_of q \<and> limit_of q \<le> 100"
  by (simp add: limit_of_def)









subsection \<open>Newest first\<close>

lemma newer_eq_total: "\<not> newer_eq a b \<Longrightarrow> newer_eq b a"
  by (auto simp: newer_eq_def)

lemma newer_eq_trans: "newer_eq a b \<Longrightarrow> newer_eq b c \<Longrightarrow> newer_eq a c"
  by (auto simp: newer_eq_def)

lemma set_place: "set (place a bs) = insert a (set bs)"
  by (induction bs) auto

lemma mset_place: "mset (place a bs) = add_mset a (mset bs)"
  by (induction bs) auto

lemma sorted_place: "sorted_wrt newer_eq bs \<Longrightarrow> sorted_wrt newer_eq (place a bs)"
proof (induction bs)
  case Nil
  show ?case by simp
next
  case (Cons b bs)
  show ?case
  proof (cases "newer_eq a b")
    case True
    with Cons.prems show ?thesis by (auto intro: newer_eq_trans)
  next
    case False
    then have "newer_eq b a" by (rule newer_eq_total)
    with False Cons show ?thesis by (auto simp: set_place)
  qed
qed

lemma sorted_order_by: "sorted_wrt newer_eq (order_by cs)"
  by (induction cs) (simp_all add: sorted_place)

lemma mset_order_by: "mset (order_by cs) = mset cs"
  by (induction cs) (simp_all add: mset_place)

lemma limit_offset_take_drop:
  "0 \<le> l \<Longrightarrow> limit_offset l off xs = take (nat l) (drop (nat off) xs)"
  by (simp add: limit_offset_def)

lemma order_sample: "map c_id (order_by sample_rows) = [3, 2, 1, 4]"
  by code_simp

text \<open>
  C6. When the query succeeds, the views of a list response are those of the rows
  \<open>cs\<close> obtained from the whole table, put in order, by leaving out the first
  \<open>offset\<close> rows and keeping at most \<open>limit\<close> of the rest. The order is newest first:
  of two rows the one standing first has the greater \<open>created_at\<close> or, with equal
  \<open>created_at\<close>, the greater or equal \<open>id\<close>; and the ordered table has the rows of the
  table, each as often.
\<close>

theorem list_newest_first:
  assumes "io_ok e"
  shows "\<exists>cs. views (payload (fst (get_comments e d q))) = map (safe \<circ> select_columns) cs
      \<and> cs = take (nat (limit_of q)) (drop (nat (offset_of q)) (order_by (rows d)))
      \<and> length cs \<le> nat (limit_of q)
      \<and> sorted_wrt (\<lambda>a b. c_created_at b < c_created_at a
            \<or> (c_created_at a = c_created_at b \<and> c_id b \<le> c_id a)) cs
      \<and> sorted_wrt (\<lambda>a b. c_created_at b < c_created_at a
            \<or> (c_created_at a = c_created_at b \<and> c_id b \<le> c_id a)) (order_by (rows d))
      \<and> mset (order_by (rows d)) = mset (rows d)"
proof -
  let ?cs = "take (nat (limit_of q)) (drop (nat (offset_of q)) (order_by (rows d)))"
  have l: "0 \<le> limit_of q" using limit_of_bounds [of q] by simp
  have v: "views (payload (fst (get_comments e d q))) = map (safe \<circ> select_columns) ?cs"
    using assms l by (simp add: views_get_comments limit_offset_take_drop)
  have s: "sorted_wrt newer_eq (order_by (rows d))" by (rule sorted_order_by)
  then have "sorted_wrt newer_eq ?cs"
    by (intro sorted_wrt_take sorted_wrt_drop)
  with s v show ?thesis
    by (simp add: newer_eq_def [abs_def] mset_order_by)
qed

text \<open>
  The sample table lists as 3, 2, 1, 4; with \<open>limit=2\<close> and \<open>offset=1\<close> the response
  shows the rows 2 and 1.
\<close>

theorem list_newest_first_witness:
  "io_ok sample_env
   \<and> (\<exists>cs. views (payload (fst (get_comments sample_env \<lparr>rows = sample_rows, seq = 4, issued = []\<rparr>
                \<lparr>q_limit = Some (QStr (ascii ''2'')), q_offset = Some (QStr (ascii ''1''))\<rparr>)))
            = map (safe \<circ> select_columns) cs
         \<and> map c_id cs = [2, 1] \<and> length cs \<le> 2)"
proof -
  have ok: "io_ok sample_env"
    by (simp add: sample_env_def)
  have lim: "limit_of \<lparr>q_limit = Some (QStr (ascii ''2'')), q_offset = Some (QStr (ascii ''1''))\<rparr> = 2"
    "offset_of \<lparr>q_limit = Some (QStr (ascii ''2'')), q_offset = Some (QStr (ascii ''1''))\<rparr> = 1"
    by code_simp+
  have ids: "map c_id (take 2 (drop 1 (order_by sample_rows))) = [2, 1]"
    by (simp add: take_map [symmetric] drop_map [symmetric] order_sample)
  from list_newest_first [OF ok, of "\<lparr>rows = sample_rows, seq = 4, issued = []\<rparr>"
      "\<lparr>q_limit = Some (QStr (ascii ''2'')), q_offset = Some (QStr (ascii ''1''))\<rparr>"]
  show ?thesis using ok ids by (auto simp: lim)
qed

subsection \<open>A rejected request leaves the database alone\<close>

text \<open>
  C7. A request to the create route that is answered by a 400, which is one of the three
  validation errors or the malformed-body error, leaves the database as it was: the
  table, the \<open>AUTOINCREMENT\<close> counter and the list of statements issued are unchanged,
  so no statement has been issued at all.
\<close>

theorem rejected_create_writes_nothing:
  "status (fst (post_route e d p)) = 400 \<Longrightarrow>
     snd (post_route e d p) = d
     \<and> member (payload (fst (post_route e d p))) ''error'' \<in>
         {Some (JStr (ascii ''VALIDATION_MIN_LENGTH'')), Some (JStr (ascii ''VALIDATION_MAX_LENGTH'')),
          Some (JStr (ascii ''VALIDATION_EMAIL'')), Some (JStr (ascii ''JSON_INVALID_BODY''))}"
proof (cases p)
  case (Parsed b)
  assume "status (fst (post_route e d p)) = 400"
  with Parsed have s: "status (fst (post_comments e d b)) = 400"
    by (simp add: post_route_def)
  then have "member (payload (fst (post_comments e d b))) ''error'' \<in>
         {Some (JStr (ascii ''VALIDATION_MIN_LENGTH'')), Some (JStr (ascii ''VALIDATION_MAX_LENGTH'')),
          Some (JStr (ascii ''VALIDATION_EMAIL'')), Some (JStr (ascii ''JSON_INVALID_BODY''))}"
    by (auto simp: post_comments_def Let_def error_middleware_def validation_error_def db_run_def
        split: option.splits if_splits)
  with post_comments_400 [OF s] Parsed show ?thesis
    by (simp add: post_route_def)
next
  case (Raised err)
  assume "status (fst (post_route e d p)) = 400"
  with Raised show ?thesis
    by (simp add: post_route_def error_middleware_def split: if_splits)
qed

text \<open>A request with a bad address, and a request whose body did not parse.\<close>

theorem rejected_create_writes_nothing_witness:
  "status (fst (post_route sample_env empty_db
      (Parsed (Object [(ascii ''email'', VStr (ascii ''not-an-email'')),
                       (ascii ''message'', VStr (ascii ''hello''))])))) = 400
   \<and> snd (post_route sample_env empty_db
      (Parsed (Object [(ascii ''email'', VStr (ascii ''not-an-email'')),
                       (ascii ''message'', VStr (ascii ''hello''))]))) = empty_db
   \<and> status (fst (post_route sample_env empty_db (Raised Body_syntax_error))) = 400
   \<and> snd (post_route sample_env empty_db (Raised Body_syntax_error)) = empty_db"
proof -
  have 1: "status (fst (post_route sample_env empty_db
      (Parsed (Object [(ascii ''email'', VStr (ascii ''not-an-email'')),
                       (ascii ''message'', VStr (ascii ''hello''))])))) = 400"
    by (simp add: post_route_def post_not_an_email)
  have 2: "status (fst (post_route sample_env empty_db (Raised Body_syntax_error))) = 400"
    by (simp add: post_route_def error_middleware_def)
  from 1 2 rejected_create_writes_nothing [OF 1] rejected_create_writes_nothing [OF 2]
  show ?thesis by blast
qed

subsection \<open>Name and address are cut, the empty name is replaced\<close>

lemma member_safe_name:
  "member (safe x) ''name'' =
     Some (JStr (case r_name x of None \<Rightarrow> anonimo | Some s \<Rightarrow> if s = [] then anonimo else s))"
  by (simp add: safe_def or_anonimo_def split: option.split)





subsection \<open>The name is returned as stored\<close>

lemma sample_name:
  "field_text sample_body (ascii ''name'') = Some (ascii '' <b>Ana</b>'')"
  "slice0 100 (trim (ascii '' <b>Ana</b>'')) = ascii ''<b>Ana</b>''"
  "ascii ''<b>Ana</b>'' \<noteq> []"
  "sanitize (ascii ''<b>Ana</b>'') \<noteq> ascii ''<b>Ana</b>''"
  by code_simp+

text \<open>
  C10. A non-empty name is returned verbatim, without escaping: a view of a list
  response shows the name of its row as the row holds it, and the view of a create
  response shows the trimmed name cut to 100 code units, which is also what the row
  stores.
\<close>

theorem name_not_sanitized:
  "(r_name x = Some nm \<and> nm \<noteq> [] \<longrightarrow> member (safe x) ''name'' = Some (JStr nm))
   \<and> r_name (select_columns c) = c_name c
   \<and> (status (fst (post_comments e d b)) = 201 \<longrightarrow>
        (\<exists>n v. field_text b (ascii ''name'') = Some n
           \<and> views (payload (fst (post_comments e d b))) = [v]
           \<and> c_name (last (rows (snd (post_comments e d b)))) = Some (slice0 100 (trim n))
           \<and> (slice0 100 (trim n) \<noteq> [] \<longrightarrow>
                member v ''name'' = Some (JStr (slice0 100 (trim n))))))"
proof (intro conjI impI)
  assume "r_name x = Some nm \<and> nm \<noteq> []"
  then show "member (safe x) ''name'' = Some (JStr nm)"
    by (simp add: member_safe_name)
next
  show "r_name (select_columns c) = c_name c"
    by (simp add: select_columns_def)
next
  assume "status (fst (post_comments e d b)) = 201"
  from post_comments_201_row [OF this]
  show "\<exists>n v. field_text b (ascii ''name'') = Some n
           \<and> views (payload (fst (post_comments e d b))) = [v]
           \<and> c_name (last (rows (snd (post_comments e d b)))) = Some (slice0 100 (trim n))
           \<and> (slice0 100 (trim n) \<noteq> [] \<longrightarrow>
                member v ''name'' = Some (JStr (slice0 100 (trim n))))"
    by (auto simp: or_anonimo_def)
qed

text \<open>
  The sample request's name \<open><b>Ana</b>\<close> is stored, answered and listed unchanged,
  although escaping would change it.
\<close>

theorem name_not_sanitized_witness:
  "status (fst (post_comments sample_env empty_db sample_body)) = 201
   \<and> (\<exists>v. views (payload (fst (post_comments sample_env empty_db sample_body))) = [v]
        \<and> member v ''name'' = Some (JStr (ascii ''<b>Ana</b>'')))
   \<and> c_name (last (rows (snd (post_comments sample_env empty_db sample_body))))
       = Some (ascii ''<b>Ana</b>'')
   \<and> member (safe (select_columns (last (rows (snd (post_comments sample_env empty_db sample_body))))))
        ''name'' = Some (JStr (ascii ''<b>Ana</b>''))
   \<and> sanitize (ascii ''<b>Ana</b>'') \<noteq> ascii ''<b>Ana</b>''"
proof -
  have created: "status (fst (post_comments sample_env empty_db sample_body)) = 201"
    by (simp add: post_sample)
  have stored: "r_name (select_columns (last (rows (snd (post_comments sample_env empty_db sample_body)))))
      = Some (ascii ''<b>Ana</b>'') \<and> ascii ''<b>Ana</b>'' \<noteq> []"
    by (simp add: post_sample select_columns_def sample_name)
  from name_not_sanitized [of
      "select_columns (last (rows (snd (post_comments sample_env empty_db sample_body))))"
      "ascii ''<b>Ana</b>''" undefined sample_env empty_db sample_body] created stored
  show ?thesis
    using sample_name(4) by (auto simp: sample_name(1-3))
qed

end
